theory Spec2Isabelle
  imports Main "HOL-Library.Sublist" "HOL-Library.Multiset"
begin

section \<open>Values, calls and effects\<close>

text \<open>
  The flows of \<^verbatim>\<open>grr/lib/flows/general/hardware.py\<close> read a handful of attributes of
  the values a client action or a child flow sends back. The values are modelled by one
  datatype, as Python passes them untyped; \<open>PyNone\<close> is Python's \<^verbatim>\<open>None\<close>. A path is
  modelled by its text, the empty text being the falsy path.
\<close>

datatype rdfvalue =
    PyNone
  | DumpFlashImageResponse string "string list"
  | StatEntry string
  | ACPITableData string string
  | DumpACPITableResponse "rdfvalue list" "string list"
  | RDFValue string

text \<open>Attribute reads; \<open>None\<close> is Python's AttributeError (and \<^verbatim>\<open>hasattr\<close> being false).\<close>

fun getattr_logs :: "rdfvalue \<Rightarrow> string list option" where
  "getattr_logs (DumpFlashImageResponse p ls) = Some ls"
| "getattr_logs (DumpACPITableResponse ts ls) = Some ls"
| "getattr_logs _ = None"

fun getattr_path :: "rdfvalue \<Rightarrow> string option" where
  "getattr_path (DumpFlashImageResponse p ls) = Some p"
| "getattr_path _ = None"

fun getattr_aff4path :: "rdfvalue \<Rightarrow> string option" where
  "getattr_aff4path (StatEntry a) = Some a"
| "getattr_aff4path _ = None"

fun getattr_acpi_tables :: "rdfvalue \<Rightarrow> rdfvalue list option" where
  "getattr_acpi_tables (DumpACPITableResponse ts ls) = Some ts"
| "getattr_acpi_tables _ = None"

datatype error =
    FlowError string
  | ValueError string
  | AttributeError string
  | KeyError string

text \<open>
  The client actions the flows call, with the keyword arguments they are given, and the
  child flows they start.
\<close>

datatype client_action =
    Stub_DumpFlashImage nat nat bool
  | Stub_DumpACPITable bool string
  | DeleteGRRTempFiles string

datatype child_flow =
    ArtifactCollectorFlow "string list" bool
  | MultiGetFile "string list"

text \<open>
  An outbound call names the state that handles its reply; a call to a child flow also
  carries \<^verbatim>\<open>request_data\<close>, a dictionary (here an association list).
\<close>

datatype call =
    LoadComponentOnClient string string string
  | CallFlow child_flow "(string \<times> string) list" string
  | CallClient client_action string
  | CallState string

datatype aff4_kind = AFF4Symlink | ACPITableDataCollection

text \<open>
  What a state handler does to the outside, in the order it does it: log lines, replies
  to the flow's caller, outbound calls, and the operations on the AFF4 data store
  (\<open>Close\<close> is the exit of a \<^verbatim>\<open>with\<close> block).
\<close>

datatype effect =
    Log string
  | SendReply rdfvalue
  | Dispatch call
  | FACTORY_Create string aff4_kind
  | Set_SYMLINK_TARGET string string
  | AddAll string "rdfvalue list"
  | Flush string
  | Close string

text \<open>
  The \<^verbatim>\<open>responses\<close> object a handler receives: the status of the request, the
  values sent back, the \<^verbatim>\<open>request_data\<close> of the call, and the payload of the request
  message when the call went to a client action
  (\<^verbatim>\<open>responses.request.request.payload\<close>).
\<close>

record responses =
  success :: bool
  status :: string
  items :: "rdfvalue list"
  request_data :: "(string \<times> string) list"
  request_payload :: "client_action option"

definition First :: "responses \<Rightarrow> rdfvalue" where
  "First r = (case items r of [] \<Rightarrow> PyNone | x # _ \<Rightarrow> x)"

type_synonym flow_state = "string \<rightharpoonup> rdfvalue"

text \<open>
  The result of running a handler: the flow's state afterwards, the effects in order, and
  the exception that ended the handler, if one did.
\<close>

record outcome =
  state_after :: flow_state
  effects :: "effect list"
  raised :: "error option"

definition returns :: "flow_state \<Rightarrow> effect list \<Rightarrow> outcome" where
  "returns st es = \<lparr>state_after = st, effects = es, raised = None\<rparr>"

definition raises :: "flow_state \<Rightarrow> effect list \<Rightarrow> error \<Rightarrow> outcome" where
  "raises st es e = \<lparr>state_after = st, effects = es, raised = Some e\<rparr>"

text \<open>\<^verbatim>\<open>RDFURN.Add\<close>: the relative path joined below the URN.\<close>

definition Add :: "string \<Rightarrow> string \<Rightarrow> string" where
  "Add urn rel = urn @ ''/'' @ rel"

section \<open>The flow DumpFlashImage\<close>

record DumpFlashImageArgs =
  component_version :: string
  log_level :: nat
  chunk_size :: nat
  notify_syslog :: bool

definition DumpFlashImage_Start :: "DumpFlashImageArgs \<Rightarrow> flow_state \<Rightarrow> outcome" where
  "DumpFlashImage_Start args st =
     returns st [Dispatch (LoadComponentOnClient ''grr-chipsec-component''
                             (component_version args) ''CollectDebugInfo'')]"

definition CollectDebugInfo :: "flow_state \<Rightarrow> responses \<Rightarrow> outcome" where
  "CollectDebugInfo st r =
     returns st [Dispatch (CallFlow (ArtifactCollectorFlow [''LinuxHardwareInfo''] True) []
                             ''DumpImage'')]"

definition DumpImage :: "DumpFlashImageArgs \<Rightarrow> flow_state \<Rightarrow> responses \<Rightarrow> outcome" where
  "DumpImage args st r =
     returns (st(''hardware_info'' \<mapsto> First r))
       [Dispatch (CallClient
          (Stub_DumpFlashImage (log_level args) (chunk_size args) (notify_syslog args))
          ''CollectImage'')]"

text \<open>The loop of \<open>CollectImage\<close> that forwards the logs of the values that have some.\<close>

fun forward_logs_if_present :: "rdfvalue list \<Rightarrow> effect list" where
  "forward_logs_if_present [] = []"
| "forward_logs_if_present (response # rest) =
     (case getattr_logs response of
        Some ls \<Rightarrow> map Log ls
      | None \<Rightarrow> []) @ forward_logs_if_present rest"

definition CollectImage :: "flow_state \<Rightarrow> responses \<Rightarrow> outcome" where
  "CollectImage st r =
     (let forwarded = forward_logs_if_present (items r) in
      if \<not> success r then
        raises st forwarded (FlowError (''Failed to dump the flash image: '' @ status r))
      else
        (case getattr_path (First r) of
           None \<Rightarrow> raises st forwarded (AttributeError ''path'')
         | Some image_path \<Rightarrow>
             if image_path = [] then
               returns st (forwarded @
                 [Log ''No path returned. Skipping host.'', Dispatch (CallState ''End'')])
             else
               returns st (forwarded @
                 [Dispatch (CallFlow (MultiGetFile [image_path])
                              [(''image_path'', image_path)] ''DeleteTemporaryImage'')])))"

text \<open>
  \<open>DeleteTemporaryImage\<close>. \<^verbatim>\<open>SendReply\<close> is given \<^verbatim>\<open>responses.First()\<close> as it is,
  \<^verbatim>\<open>None\<close> included; the symlink is created before \<^verbatim>\<open>response.aff4path\<close> is read,
  and the \<^verbatim>\<open>with\<close> block closes it on every exit; the arguments of the cleanup call
  are evaluated, and the dictionary read, before the call is made.
\<close>

definition DeleteTemporaryImage :: "string \<Rightarrow> flow_state \<Rightarrow> responses \<Rightarrow> outcome" where
  "DeleteTemporaryImage client_id st r =
     (if \<not> success r then
        raises st [] (FlowError (''Unable to collect the flash image: '' @ status r))
      else
        (let response = First r; symlink = Add client_id ''spiflash'' in
         case getattr_aff4path response of
           None \<Rightarrow>
             raises st [SendReply response, FACTORY_Create symlink AFF4Symlink, Close symlink]
               (AttributeError ''aff4path'')
         | Some target \<Rightarrow>
             (case map_of (request_data r) ''image_path'' of
                None \<Rightarrow>
                  raises st [SendReply response, FACTORY_Create symlink AFF4Symlink,
                             Set_SYMLINK_TARGET symlink target, Close symlink]
                    (KeyError ''image_path'')
              | Some image_path \<Rightarrow>
                  returns st [SendReply response, FACTORY_Create symlink AFF4Symlink,
                              Set_SYMLINK_TARGET symlink target, Close symlink,
                              Dispatch (CallClient (DeleteGRRTempFiles image_path)
                                          ''TemporaryImageRemoved'')])))"

definition TemporaryImageRemoved :: "flow_state \<Rightarrow> responses \<Rightarrow> outcome" where
  "TemporaryImageRemoved st r =
     (if \<not> success r then
        raises st [] (FlowError (''Unable to delete the temporary flash image: '' @ status r))
      else returns st [])"

text \<open>\<open>End\<close>: \<^verbatim>\<open>hasattr(self.state, "image_path")\<close> asks whether the state has the key.\<close>

definition DumpFlashImage_End :: "flow_state \<Rightarrow> outcome" where
  "DumpFlashImage_End st =
     (if st ''image_path'' \<noteq> None then returns st [Log ''Successfully wrote Flash image.'']
      else returns st [])"

section \<open>The flow DumpACPITable\<close>

record DumpACPITableArgs =
  acpi_component_version :: string
  logging :: bool
  table_signature_list :: "string list"

definition Validate :: "DumpACPITableArgs \<Rightarrow> error option" where
  "Validate args =
     (if table_signature_list args = [] then Some (ValueError ''No ACPI table to dump.'')
      else None)"

definition DumpACPITable_Start :: "DumpACPITableArgs \<Rightarrow> flow_state \<Rightarrow> outcome" where
  "DumpACPITable_Start args st =
     returns st [Dispatch (LoadComponentOnClient ''grr-chipsec-component''
                             (acpi_component_version args) ''StartCollection'')]"

definition StartCollection :: "DumpACPITableArgs \<Rightarrow> flow_state \<Rightarrow> responses \<Rightarrow> outcome" where
  "StartCollection args st r =
     returns st
       (map (\<lambda>table_signature.
               Dispatch (CallClient (Stub_DumpACPITable (logging args) table_signature)
                           ''TableReceived''))
          (table_signature_list args))"

text \<open>
  The first loop of \<open>TableReceived\<close> reads \<^verbatim>\<open>response.logs\<close> with no guard: it stops
  with an AttributeError at the first value that has no logs, after the lines logged so far.
\<close>

fun forward_logs :: "rdfvalue list \<Rightarrow> effect list \<times> error option" where
  "forward_logs [] = ([], None)"
| "forward_logs (response # rest) =
     (case getattr_logs response of
        None \<Rightarrow> ([], Some (AttributeError ''logs''))
      | Some ls \<Rightarrow> (map Log ls @ fst (forward_logs rest), snd (forward_logs rest)))"

definition TableReceived :: "string \<Rightarrow> flow_state \<Rightarrow> responses \<Rightarrow> outcome" where
  "TableReceived client_id st r =
     (case forward_logs (items r) of
        (forwarded, Some e) \<Rightarrow> raises st forwarded e
      | (forwarded, None) \<Rightarrow>
          (case request_payload r of
             Some (Stub_DumpACPITable lg table_signature) \<Rightarrow>
               if \<not> success r then
                 returns st (forwarded @
                   [Log (''Error retrieving ACPI table with signature '' @ table_signature)])
               else
                 (case getattr_acpi_tables (First r) of
                    None \<Rightarrow> raises st forwarded (AttributeError ''acpi_tables'')
                  | Some tables \<Rightarrow>
                      if tables \<noteq> [] then
                        (let fd = Add client_id
                                    (''devices/chipsec/acpi/tables/'' @ table_signature) in
                         returns st (forwarded @
                           [Log (''Retrieved ACPI table(s) with signature '' @ table_signature),
                            FACTORY_Create fd ACPITableDataCollection,
                            AddAll fd tables, Flush fd, Close fd] @
                           map SendReply tables))
                      else returns st forwarded)
           | _ \<Rightarrow> raises st forwarded (AttributeError ''table_signature'')))"

section \<open>The engine that runs the handlers\<close>

datatype reply = Reply bool string "rdfvalue list"

datatype run_status = Running | Completed | Failed error

record flow_instance =
  wstate :: flow_state
  trace :: "effect list"
  outstanding :: "call list"
  current_state :: string
  run_status :: run_status

type_synonym handlers = "string \<Rightarrow> (flow_state \<Rightarrow> responses \<Rightarrow> outcome) option"

fun next_state :: "call \<Rightarrow> string" where
  "next_state (LoadComponentOnClient n v s) = s"
| "next_state (CallFlow f rd s) = s"
| "next_state (CallClient a s) = s"
| "next_state (CallState s) = s"

fun request_data_of :: "call \<Rightarrow> (string \<times> string) list" where
  "request_data_of (CallFlow f rd s) = rd"
| "request_data_of _ = []"

fun payload_of :: "call \<Rightarrow> client_action option" where
  "payload_of (CallClient a s) = Some a"
| "payload_of _ = None"

fun calls_of :: "effect list \<Rightarrow> call list" where
  "calls_of [] = []"
| "calls_of (Dispatch c # es) = c # calls_of es"
| "calls_of (e # es) = calls_of es"

definition envelope :: "call \<Rightarrow> reply \<Rightarrow> responses" where
  \<comment> \<open>Modelled from the spec: the flow engine (\<^verbatim>\<open>grr.lib.flow\<close>) is not among the sources.
      The reply of a call is handed to its continuation with the correlation payload of the
      call, which is "echoed back verbatim", and with the request it answers.\<close>
  "envelope c rep =
     (case rep of Reply ok stat vs \<Rightarrow>
        \<lparr>success = ok, status = stat, items = vs,
         request_data = request_data_of c, request_payload = payload_of c\<rparr>)"

definition no_responses :: responses where
  "no_responses =
     \<lparr>success = True, status = [], items = [], request_data = [], request_payload = None\<rparr>"

definition run_handler ::
  "handlers \<Rightarrow> string \<Rightarrow> responses \<Rightarrow> flow_instance \<Rightarrow> flow_instance" where
  \<comment> \<open>Modelled from the spec: the flow engine is not among the sources. "Resume calls the
      named state handler with the current WorkflowState and the envelope"; the calls it
      dispatches become outstanding; "raising a workflow-level error inside a handler marks
      the whole instance failed and stops further dispatch", and replies that arrive
      afterwards are discarded.\<close>
  "run_handler H name resp inst =
     (case H name of
        None \<Rightarrow>
          inst\<lparr>outstanding := [], run_status := Failed (FlowError (''No state '' @ name))\<rparr>
      | Some h \<Rightarrow>
          (let out = h (wstate inst) resp in
           case raised out of
             Some e \<Rightarrow>
               inst\<lparr>wstate := state_after out, trace := trace inst @ effects out,
                    outstanding := [], current_state := name, run_status := Failed e\<rparr>
           | None \<Rightarrow>
               inst\<lparr>wstate := state_after out, trace := trace inst @ effects out,
                    outstanding := outstanding inst @ calls_of (effects out),
                    current_state := name\<rparr>))"

definition finish :: "handlers \<Rightarrow> flow_instance \<Rightarrow> flow_instance" where
  \<comment> \<open>Modelled from the spec: the flow engine is not among the sources. An instance with
      no outstanding call is over: the state \<open>End\<close> runs, unless it was the last state to
      run or the flow has none, and the instance is completed.\<close>
  "finish H inst =
     (if run_status inst = Running \<and> outstanding inst = [] then
        (let ended =
               (if current_state inst = ''End'' \<or> H ''End'' = None then inst
                else run_handler H ''End'' no_responses inst)
         in if run_status ended = Running then ended\<lparr>run_status := Completed\<rparr> else ended)
      else inst)"

definition resume ::
  "handlers \<Rightarrow> flow_instance \<Rightarrow> call \<Rightarrow> reply \<Rightarrow> flow_instance" where
  \<comment> \<open>Modelled from the spec: the flow engine is not among the sources. A reply resumes
      the continuation of its call, once; a reply for an instance that is aborted or
      completed, or for a call that is not outstanding, is a no-op.\<close>
  "resume H inst c rep =
     (if run_status inst = Running \<and> c \<in> set (outstanding inst) then
        finish H (run_handler H (next_state c) (envelope c rep)
                    (inst\<lparr>outstanding := remove1 c (outstanding inst)\<rparr>))
      else inst)"

definition enter :: "handlers \<Rightarrow> flow_instance" where
  \<comment> \<open>Modelled from the spec: the flow engine is not among the sources. A new instance has
      an empty WorkflowState and enters the state \<open>Start\<close>.\<close>
  "enter H =
     finish H (run_handler H ''Start'' no_responses
       \<lparr>wstate = Map.empty, trace = [], outstanding = [], current_state = [],
        run_status = Running\<rparr>)"

fun run ::
  "handlers \<Rightarrow> flow_instance \<Rightarrow> (call \<times> reply) list \<Rightarrow> flow_instance" where
  "run H inst [] = inst"
| "run H inst ((c, rep) # deliveries) = run H (resume H inst c rep) deliveries"

definition self_reply :: reply where
  \<comment> \<open>Modelled from the spec: \<^verbatim>\<open>CallState\<close> is a call of the flow to itself; the engine
      answers it with an empty, successful reply.\<close>
  "self_reply = Reply True [] []"

definition flash_handlers :: "DumpFlashImageArgs \<Rightarrow> string \<Rightarrow> handlers" where
  "flash_handlers args client_id name =
     (if name = ''Start'' then Some (\<lambda>st r. DumpFlashImage_Start args st)
      else if name = ''CollectDebugInfo'' then Some CollectDebugInfo
      else if name = ''DumpImage'' then Some (DumpImage args)
      else if name = ''CollectImage'' then Some CollectImage
      else if name = ''DeleteTemporaryImage'' then Some (DeleteTemporaryImage client_id)
      else if name = ''TemporaryImageRemoved'' then Some TemporaryImageRemoved
      else if name = ''End'' then Some (\<lambda>st r. DumpFlashImage_End st)
      else None)"

definition acpi_handlers :: "DumpACPITableArgs \<Rightarrow> string \<Rightarrow> handlers" where
  "acpi_handlers args client_id name =
     (if name = ''Start'' then Some (\<lambda>st r. DumpACPITable_Start args st)
      else if name = ''StartCollection'' then Some (StartCollection args)
      else if name = ''TableReceived'' then Some (TableReceived client_id)
      else None)"

definition StartFlow_DumpFlashImage :: "DumpFlashImageArgs \<Rightarrow> string \<Rightarrow> flow_instance" where
  "StartFlow_DumpFlashImage args client_id = enter (flash_handlers args client_id)"

definition StartFlow_DumpACPITable ::
  "DumpACPITableArgs \<Rightarrow> string \<Rightarrow> error + flow_instance" where
  \<comment> \<open>Modelled from the spec: the flow engine is not among the sources. "Start(args)
      validates args (fails with ValidationError if malformed)" and only then creates the
      instance.\<close>
  "StartFlow_DumpACPITable args client_id =
     (case Validate args of
        Some e \<Rightarrow> Inl e
      | None \<Rightarrow> Inr (enter (acpi_handlers args client_id)))"

section \<open>Reading a trace\<close>

fun log_lines :: "effect list \<Rightarrow> string list" where
  "log_lines [] = []"
| "log_lines (Log m # es) = m # log_lines es"
| "log_lines (e # es) = log_lines es"

fun replies :: "effect list \<Rightarrow> rdfvalue list" where
  "replies [] = []"
| "replies (SendReply v # es) = v # replies es"
| "replies (e # es) = replies es"

fun is_pointer_update :: "effect \<Rightarrow> bool" where
  "is_pointer_update (Set_SYMLINK_TARGET urn target) = True"
| "is_pointer_update _ = False"

fun is_durable_write :: "effect \<Rightarrow> bool" where
  "is_durable_write (Set_SYMLINK_TARGET urn target) = True"
| "is_durable_write (AddAll urn vs) = True"
| "is_durable_write _ = False"

definition pointer_updates :: "effect list \<Rightarrow> effect list" where
  "pointer_updates es = filter is_pointer_update es"

definition durable_writes :: "effect list \<Rightarrow> effect list" where
  "durable_writes es = filter is_durable_write es"

fun is_cleanup_call :: "effect \<Rightarrow> bool" where
  "is_cleanup_call (Dispatch (CallClient (DeleteGRRTempFiles p) s)) = True"
| "is_cleanup_call _ = False"

fun is_transfer_call :: "effect \<Rightarrow> bool" where
  "is_transfer_call (Dispatch (CallFlow (MultiGetFile ps) rd s)) = True"
| "is_transfer_call _ = False"

text \<open>The text of an exception, as \<^verbatim>\<open>str\<close> gives it.\<close>

fun error_text :: "error \<Rightarrow> string" where
  "error_text (FlowError m) = m"
| "error_text (ValueError m) = m"
| "error_text (AttributeError m) = m"
| "error_text (KeyError m) = m"

text \<open>A handler's outcome is a fatal abort of the flow whose message contains a text.\<close>

definition aborts_mentioning :: "string \<Rightarrow> outcome \<Rightarrow> bool" where
  "aborts_mentioning text out =
     (case raised out of
        Some (FlowError m) \<Rightarrow> sublist text m
      | _ \<Rightarrow> False)"

text \<open>
  The effects whose order the flash flow promises: a reply, a pointer update, a cleanup
  call; and the order it promises them in.
\<close>

fun is_milestone :: "effect \<Rightarrow> bool" where
  "is_milestone (SendReply v) = True"
| "is_milestone (Set_SYMLINK_TARGET urn target) = True"
| "is_milestone (Dispatch (CallClient (DeleteGRRTempFiles p) s)) = True"
| "is_milestone _ = False"

definition milestones :: "effect list \<Rightarrow> effect list" where
  "milestones es = filter is_milestone es"

definition flash_script :: "string \<Rightarrow> rdfvalue \<Rightarrow> string \<Rightarrow> string \<Rightarrow> effect list" where
  "flash_script client_id v target p =
     [SendReply v, Set_SYMLINK_TARGET (Add client_id ''spiflash'') target,
      Dispatch (CallClient (DeleteGRRTempFiles p) ''TemporaryImageRemoved'')]"

text \<open>
  The invariant of a run of the flash flow: it waits for one call at a time; before the
  transfer is handled nothing of the script has happened, while the cleanup is awaited all
  of it has, and a run that is over has done a prefix of it.
\<close>

definition early_state :: "string \<Rightarrow> bool" where
  "early_state s =
     (s = ''CollectDebugInfo'' \<or> s = ''DumpImage'' \<or> s = ''CollectImage'' \<or>
      s = ''DeleteTemporaryImage'' \<or> s = ''End'')"

definition flash_inv :: "string \<Rightarrow> flow_instance \<Rightarrow> bool" where
  "flash_inv client_id inst =
     ((run_status inst = Running \<and> milestones (trace inst) = [] \<and>
        (\<exists>c. outstanding inst = [c] \<and> early_state (next_state c))) \<or>
      (run_status inst = Running \<and>
        (\<exists>v target p.
           outstanding inst = [CallClient (DeleteGRRTempFiles p) ''TemporaryImageRemoved''] \<and>
           milestones (trace inst) = flash_script client_id v target p)) \<or>
      (run_status inst \<noteq> Running \<and>
        (\<exists>v target p. prefix (milestones (trace inst)) (flash_script client_id v target p))))"

section \<open>Facts about traces and the engine\<close>

lemma raises_sel [simp]:
  "state_after (raises st es e) = st" "effects (raises st es e) = es"
  "raised (raises st es e) = Some e"
  by (simp_all add: raises_def)

lemma returns_sel [simp]:
  "state_after (returns st es) = st" "effects (returns st es) = es"
  "raised (returns st es) = None"
  by (simp_all add: returns_def)

lemma calls_of_append: "calls_of (xs @ ys) = calls_of xs @ calls_of ys"
  by (induction xs rule: calls_of.induct) simp_all

lemma log_lines_append: "log_lines (xs @ ys) = log_lines xs @ log_lines ys"
  by (induction xs rule: log_lines.induct) simp_all

lemma replies_append: "replies (xs @ ys) = replies xs @ replies ys"
  by (induction xs rule: replies.induct) simp_all

lemma calls_of_map_Log: "calls_of (map Log ls) = []"
  by (induction ls) simp_all

lemma replies_map_Log: "replies (map Log ls) = []"
  by (induction ls) simp_all

lemma log_lines_map_Log: "log_lines (map Log ls) = ls"
  by (induction ls) simp_all

lemma filter_map_Log:
  "filter is_pointer_update (map Log ls) = []" "filter is_durable_write (map Log ls) = []"
  "filter is_cleanup_call (map Log ls) = []" "filter is_transfer_call (map Log ls) = []"
  by (induction ls) simp_all

lemma calls_of_forward_if: "calls_of (forward_logs_if_present vs) = []"
  by (induction vs) (simp_all add: calls_of_append calls_of_map_Log split: option.split)

lemma replies_forward_if: "replies (forward_logs_if_present vs) = []"
  by (induction vs) (simp_all add: replies_append replies_map_Log split: option.split)

lemma filter_forward_if:
  "filter is_pointer_update (forward_logs_if_present vs) = []"
  "filter is_durable_write (forward_logs_if_present vs) = []"
  "filter is_cleanup_call (forward_logs_if_present vs) = []"
  "filter is_transfer_call (forward_logs_if_present vs) = []"
  by (induction vs) (simp_all add: filter_map_Log split: option.split)

lemma calls_of_forward: "calls_of (fst (forward_logs vs)) = []"
  by (induction vs) (simp_all add: calls_of_append calls_of_map_Log split: option.split)

lemma replies_forward: "replies (fst (forward_logs vs)) = []"
  by (induction vs) (simp_all add: replies_append replies_map_Log split: option.split)

lemma filter_forward:
  "filter is_pointer_update (fst (forward_logs vs)) = []"
  "filter is_durable_write (fst (forward_logs vs)) = []"
  by (induction vs) (simp_all add: filter_map_Log split: option.split)

lemma forward_logs_typed:
  "list_all (\<lambda>v. getattr_logs v \<noteq> None) vs \<Longrightarrow> snd (forward_logs vs) = None"
  by (induction vs) (auto split: option.split)

lemma aborts_mentioningI:
  "raised out = Some (FlowError (pre @ text)) \<Longrightarrow> aborts_mentioning text out"
  by (simp add: aborts_mentioning_def)

lemma run_handler_raised:
  assumes "H name = Some h" and "raised (h (wstate inst) r) = Some e"
  shows "run_status (run_handler H name r inst) = Failed e"
    and "outstanding (run_handler H name r inst) = []"
    and "trace (run_handler H name r inst) = trace inst @ effects (h (wstate inst) r)"
  using assms by (simp_all add: run_handler_def Let_def)

lemma run_handler_returned:
  assumes "H name = Some h" and "raised (h (wstate inst) r) = None"
  shows "run_status (run_handler H name r inst) = run_status inst"
    and "outstanding (run_handler H name r inst) =
           outstanding inst @ calls_of (effects (h (wstate inst) r))"
    and "trace (run_handler H name r inst) = trace inst @ effects (h (wstate inst) r)"
    and "wstate (run_handler H name r inst) = state_after (h (wstate inst) r)"
    and "current_state (run_handler H name r inst) = name"
  using assms by (simp_all add: run_handler_def Let_def)

lemma resume_not_running: "run_status inst \<noteq> Running \<Longrightarrow> resume H inst c rep = inst"
  by (simp add: resume_def)

lemma flash_handlers_simps:
  "flash_handlers args client_id ''Start'' = Some (\<lambda>st r. DumpFlashImage_Start args st)"
  "flash_handlers args client_id ''CollectDebugInfo'' = Some CollectDebugInfo"
  "flash_handlers args client_id ''DumpImage'' = Some (DumpImage args)"
  "flash_handlers args client_id ''CollectImage'' = Some CollectImage"
  "flash_handlers args client_id ''DeleteTemporaryImage'' =
     Some (DeleteTemporaryImage client_id)"
  "flash_handlers args client_id ''TemporaryImageRemoved'' = Some TemporaryImageRemoved"
  "flash_handlers args client_id ''End'' = Some (\<lambda>st r. DumpFlashImage_End st)"
  by (simp_all add: flash_handlers_def)

lemma acpi_handlers_simps:
  "acpi_handlers args client_id ''Start'' = Some (\<lambda>st r. DumpACPITable_Start args st)"
  "acpi_handlers args client_id ''StartCollection'' = Some (StartCollection args)"
  "acpi_handlers args client_id ''TableReceived'' = Some (TableReceived client_id)"
  "acpi_handlers args client_id ''End'' = None"
  by (simp_all add: acpi_handlers_def)

section \<open>Failure replies in the flash flow\<close>

lemma CollectImage_failure:
  "\<not> success r \<Longrightarrow>
     CollectImage st r =
       raises st (forward_logs_if_present (items r))
         (FlowError (''Failed to dump the flash image: '' @ status r))"
  by (simp add: CollectImage_def)

lemma DeleteTemporaryImage_failure:
  "\<not> success r \<Longrightarrow>
     DeleteTemporaryImage client_id st r =
       raises st [] (FlowError (''Unable to collect the flash image: '' @ status r))"
  by (simp add: DeleteTemporaryImage_def)

lemma TemporaryImageRemoved_failure:
  "\<not> success r \<Longrightarrow>
     TemporaryImageRemoved st r =
       raises st [] (FlowError (''Unable to delete the temporary flash image: '' @ status r))"
  by (simp add: TemporaryImageRemoved_def)

text \<open>
  Claim C1. A reply with \<open>success = False\<close> makes each of \<open>CollectImage\<close>,
  \<open>DeleteTemporaryImage\<close> and \<open>TemporaryImageRemoved\<close> raise a \<open>FlowError\<close> whose message
  ends with the status of the reply, so contains it. \<open>CollectImage\<close> has then dispatched no
  call at all (it has only forwarded logs), the two others have done nothing. In the
  engine, the instance is failed with that error and ignores every later reply.
\<close>

theorem failed_reply_aborts_flash_flow:
  assumes "\<not> success r"
  shows
    "raised (CollectImage st r) =
       Some (FlowError (''Failed to dump the flash image: '' @ status r)) \<and>
     aborts_mentioning (status r) (CollectImage st r) \<and>
     calls_of (effects (CollectImage st r)) = [] \<and>
     raised (DeleteTemporaryImage client_id st r) =
       Some (FlowError (''Unable to collect the flash image: '' @ status r)) \<and>
     aborts_mentioning (status r) (DeleteTemporaryImage client_id st r) \<and>
     effects (DeleteTemporaryImage client_id st r) = [] \<and>
     raised (TemporaryImageRemoved st r) =
       Some (FlowError (''Unable to delete the temporary flash image: '' @ status r)) \<and>
     aborts_mentioning (status r) (TemporaryImageRemoved st r) \<and>
     effects (TemporaryImageRemoved st r) = [] \<and>
     run_status (run_handler (flash_handlers args client_id) ''CollectImage'' r inst) =
       Failed (FlowError (''Failed to dump the flash image: '' @ status r)) \<and>
     run_status (run_handler (flash_handlers args client_id) ''DeleteTemporaryImage'' r inst) =
       Failed (FlowError (''Unable to collect the flash image: '' @ status r)) \<and>
     run_status (run_handler (flash_handlers args client_id) ''TemporaryImageRemoved'' r inst) =
       Failed (FlowError (''Unable to delete the temporary flash image: '' @ status r)) \<and>
     (\<forall>c rep.
        resume (flash_handlers args client_id)
          (run_handler (flash_handlers args client_id) ''CollectImage'' r inst) c rep =
        run_handler (flash_handlers args client_id) ''CollectImage'' r inst)"
proof -
  let ?H = "flash_handlers args client_id"
  have dump: "raised (CollectImage st r) =
      Some (FlowError (''Failed to dump the flash image: '' @ status r))" for st
    by (simp only: CollectImage_failure [OF assms] raises_sel)
  have transfer: "raised (DeleteTemporaryImage client_id st r) =
      Some (FlowError (''Unable to collect the flash image: '' @ status r))" for st
    by (simp only: DeleteTemporaryImage_failure [OF assms] raises_sel)
  have cleanup: "raised (TemporaryImageRemoved st r) =
      Some (FlowError (''Unable to delete the temporary flash image: '' @ status r))" for st
    by (simp only: TemporaryImageRemoved_failure [OF assms] raises_sel)
  have quiet: "calls_of (effects (CollectImage st r)) = []"
    by (simp only: CollectImage_failure [OF assms] raises_sel calls_of_forward_if)
  have none: "effects (DeleteTemporaryImage client_id st r) = []"
      "effects (TemporaryImageRemoved st r) = []"
    by (simp_all only: DeleteTemporaryImage_failure [OF assms]
          TemporaryImageRemoved_failure [OF assms] raises_sel)
  have e1: "run_status (run_handler ?H ''CollectImage'' r inst) =
      Failed (FlowError (''Failed to dump the flash image: '' @ status r))"
    using dump [of "wstate inst"]
    by (simp add: run_handler_def flash_handlers_simps(4) Let_def)
  have e2: "run_status (run_handler ?H ''DeleteTemporaryImage'' r inst) =
      Failed (FlowError (''Unable to collect the flash image: '' @ status r))"
    using transfer [of "wstate inst"]
    by (simp add: run_handler_def flash_handlers_simps(5) Let_def)
  have e3: "run_status (run_handler ?H ''TemporaryImageRemoved'' r inst) =
      Failed (FlowError (''Unable to delete the temporary flash image: '' @ status r))"
    using cleanup [of "wstate inst"]
    by (simp add: run_handler_def flash_handlers_simps(6) Let_def)
  have ignore: "resume ?H (run_handler ?H ''CollectImage'' r inst) c rep =
      run_handler ?H ''CollectImage'' r inst" for c rep
    by (rule resume_not_running) (simp only: e1 run_status.distinct not_False_eq_True)
  show ?thesis
    using dump [of st] transfer [of st] cleanup [of st] quiet none e1 e2 e3 ignore
      aborts_mentioningI [OF dump] aborts_mentioningI [OF transfer]
      aborts_mentioningI [OF cleanup]
    by blast
qed

theorem failed_reply_aborts_flash_flow_witness:
  "aborts_mentioning ''device busy''
     (CollectImage Map.empty
        \<lparr>success = False, status = ''device busy'', items = [], request_data = [],
         request_payload = None\<rparr>) \<and>
   calls_of (effects (CollectImage Map.empty
        \<lparr>success = False, status = ''device busy'', items = [], request_data = [],
         request_payload = None\<rparr>)) = []"
  using failed_reply_aborts_flash_flow
    [of "\<lparr>success = False, status = ''device busy'', items = [], request_data = [],
          request_payload = None\<rparr>" Map.empty]
  by simp

lemma CollectImage_no_path:
  "success r \<Longrightarrow> getattr_path (First r) = Some [] \<Longrightarrow>
     CollectImage st r =
       returns st (forward_logs_if_present (items r) @
         [Log ''No path returned. Skipping host.'', Dispatch (CallState ''End'')])"
  by (simp add: CollectImage_def)

lemma CollectImage_path:
  "success r \<Longrightarrow> getattr_path (First r) = Some p \<Longrightarrow> p \<noteq> [] \<Longrightarrow>
     CollectImage st r =
       returns st (forward_logs_if_present (items r) @
         [Dispatch (CallFlow (MultiGetFile [p]) [(''image_path'', p)]
                      ''DeleteTemporaryImage'')])"
  by (simp add: CollectImage_def)

section \<open>A dump that returns no path\<close>

text \<open>
  Claim C2, as stated, asks for exactly one log line when the dump reply is successful and
  its path is empty. \<open>CollectImage\<close> first forwards the logs the reply carries: a reply
  with an empty path and one log line of its own gives two lines.
\<close>

theorem no_path_reply_with_logs_counterexample:
  "success \<lparr>success = True, status = [], items = [DumpFlashImageResponse [] [''chipsec: no SPI'']],
            request_data = [], request_payload = None\<rparr> \<and>
   getattr_path (First \<lparr>success = True, status = [], items = [DumpFlashImageResponse [] [''chipsec: no SPI'']],
            request_data = [], request_payload = None\<rparr>) = Some [] \<and>
   log_lines (effects (CollectImage Map.empty
      \<lparr>success = True, status = [], items = [DumpFlashImageResponse [] [''chipsec: no SPI'']],
            request_data = [], request_payload = None\<rparr>)) =
     [''chipsec: no SPI'', ''No path returned. Skipping host.'']"
  by (simp add: CollectImage_def First_def)

text \<open>
  Claim C2, amended. For a successful dump reply whose first value has an empty path,
  \<open>CollectImage\<close> forwards the logs of the reply, then logs exactly one line of its own,
  then calls the state \<open>End\<close>; it dispatches no other call, raises nothing and leaves the
  state as it was. In the engine the instance then has the self-call as its only
  outstanding call, and completes when that call is answered, \<open>End\<close> adding nothing to the
  trace.
\<close>

theorem no_path_reply_ends_flow:
  assumes "success r" and "getattr_path (First r) = Some []"
      and "run_status inst = Running" and "outstanding inst = [c]"
      and "next_state c = ''CollectImage''" and "wstate inst ''image_path'' = None"
      and "r = envelope c rep"
  shows
    "effects (CollectImage st r) =
       forward_logs_if_present (items r) @
         [Log ''No path returned. Skipping host.'', Dispatch (CallState ''End'')] \<and>
     log_lines (effects (CollectImage st r)) =
       log_lines (forward_logs_if_present (items r)) @ [''No path returned. Skipping host.''] \<and>
     calls_of (effects (CollectImage st r)) = [CallState ''End''] \<and>
     raised (CollectImage st r) = None \<and>
     state_after (CollectImage st r) = st \<and>
     outstanding (resume (flash_handlers args client_id) inst c rep) = [CallState ''End''] \<and>
     run_status (resume (flash_handlers args client_id) inst c rep) = Running \<and>
     run_status (resume (flash_handlers args client_id)
        (resume (flash_handlers args client_id) inst c rep) (CallState ''End'') self_reply) =
       Completed \<and>
     trace (resume (flash_handlers args client_id)
        (resume (flash_handlers args client_id) inst c rep) (CallState ''End'') self_reply) =
       trace inst @ forward_logs_if_present (items r) @
         [Log ''No path returned. Skipping host.'', Dispatch (CallState ''End'')]"
proof -
  let ?H = "flash_handlers args client_id"
  have eq: "CollectImage st r =
       returns st (forward_logs_if_present (items r) @
         [Log ''No path returned. Skipping host.'', Dispatch (CallState ''End'')])" for st
    by (rule CollectImage_no_path [OF assms(1,2)])
  have a: "effects (CollectImage st r) =
       forward_logs_if_present (items r) @
         [Log ''No path returned. Skipping host.'', Dispatch (CallState ''End'')]"
    by (simp only: eq returns_sel)
  have b: "log_lines (effects (CollectImage st r)) =
       log_lines (forward_logs_if_present (items r)) @ [''No path returned. Skipping host.'']"
    by (simp only: a log_lines_append log_lines.simps)
  have c: "calls_of (effects (CollectImage st r)) = [CallState ''End'']"
    by (simp add: a calls_of_append calls_of_forward_if)
  have d: "raised (CollectImage st r) = None" "state_after (CollectImage st r) = st"
    by (simp_all only: eq returns_sel)
  let ?i1 = "resume ?H inst c rep"
  have i1: "?i1 = inst\<lparr>trace := trace inst @ forward_logs_if_present (items r) @
         [Log ''No path returned. Skipping host.'', Dispatch (CallState ''End'')],
         outstanding := [CallState ''End''], current_state := ''CollectImage''\<rparr>"
    using assms(3-7) eq [of "wstate inst"]
    by (simp add: resume_def run_handler_def finish_def flash_handlers_simps Let_def
        calls_of_append calls_of_forward_if)
  have e: "outstanding ?i1 = [CallState ''End'']" "run_status ?i1 = Running"
    using assms(3) by (simp_all add: i1)
  have f: "run_status (resume ?H ?i1 (CallState ''End'') self_reply) = Completed"
    unfolding i1 using assms(3,6)
    by (simp add: resume_def run_handler_def finish_def flash_handlers_simps Let_def
        DumpFlashImage_End_def self_reply_def envelope_def)
  have g: "trace (resume ?H ?i1 (CallState ''End'') self_reply) =
       trace inst @ forward_logs_if_present (items r) @
         [Log ''No path returned. Skipping host.'', Dispatch (CallState ''End'')]"
    unfolding i1 using assms(3,6)
    by (simp add: resume_def run_handler_def finish_def flash_handlers_simps Let_def
        DumpFlashImage_End_def self_reply_def envelope_def)
  show ?thesis using a b c d e f g by blast
qed


theorem no_path_reply_ends_flow_witness:
  "run_status
     (resume (flash_handlers \<lparr>component_version = ''1'', log_level = 0, chunk_size = 0, notify_syslog = False\<rparr> ''C.1'')
        (resume (flash_handlers \<lparr>component_version = ''1'', log_level = 0, chunk_size = 0, notify_syslog = False\<rparr> ''C.1'')
           \<lparr>wstate = Map.empty, trace = [], outstanding = [CallClient (Stub_DumpFlashImage 0 0 False) ''CollectImage''],
            current_state = ''DumpImage'', run_status = Running\<rparr>
           (CallClient (Stub_DumpFlashImage 0 0 False) ''CollectImage'')
           (Reply True [] [DumpFlashImageResponse [] []]))
        (CallState ''End'') self_reply) = Completed \<and>
   log_lines (effects (CollectImage Map.empty
      (envelope (CallClient (Stub_DumpFlashImage 0 0 False) ''CollectImage'')
         (Reply True [] [DumpFlashImageResponse [] []])))) = [''No path returned. Skipping host.'']"
  using no_path_reply_ends_flow [of "envelope (CallClient (Stub_DumpFlashImage 0 0 False) ''CollectImage'')
         (Reply True [] [DumpFlashImageResponse [] []])"
       "\<lparr>wstate = Map.empty, trace = [], outstanding = [CallClient (Stub_DumpFlashImage 0 0 False) ''CollectImage''],
            current_state = ''DumpImage'', run_status = Running\<rparr>"
       "CallClient (Stub_DumpFlashImage 0 0 False) ''CollectImage''"
       "Reply True [] [DumpFlashImageResponse [] []]" Map.empty
       "\<lparr>component_version = ''1'', log_level = 0, chunk_size = 0, notify_syslog = False\<rparr>" "''C.1''"]
  by (simp add: envelope_def First_def)

section \<open>The cleanup call\<close>

lemma DeleteTemporaryImage_calls:
  "calls_of (effects (DeleteTemporaryImage client_id st r)) =
     (if success r \<and> getattr_aff4path (First r) \<noteq> None then
        (case map_of (request_data r) ''image_path'' of
           None \<Rightarrow> []
         | Some p \<Rightarrow> [CallClient (DeleteGRRTempFiles p) ''TemporaryImageRemoved''])
      else [])"
  by (auto simp add: DeleteTemporaryImage_def Let_def split: option.split)

text \<open>
  Claim C4. A successful dump reply with the non-empty path \<open>p\<close> makes \<open>CollectImage\<close>
  dispatch one call, the transfer, with \<open>p\<close> under \<open>image_path\<close> in its request data.
  Whatever reply that call gets, \<open>DeleteTemporaryImage\<close> dispatches either nothing or the
  one cleanup call that carries \<open>p\<close>, and it dispatches it only when the transfer reply is
  successful (and its first value has an \<open>aff4path\<close>).
\<close>

theorem cleanup_carries_dump_path:
  assumes "success r" and "getattr_path (First r) = Some p" and "p \<noteq> []"
  shows
    "calls_of (effects (CollectImage st r)) =
       [CallFlow (MultiGetFile [p]) [(''image_path'', p)] ''DeleteTemporaryImage''] \<and>
     (\<forall>ok stat vs st'.
        calls_of (effects (DeleteTemporaryImage client_id st'
          (envelope (CallFlow (MultiGetFile [p]) [(''image_path'', p)] ''DeleteTemporaryImage'')
             (Reply ok stat vs)))) =
        (if ok \<and> getattr_aff4path (case vs of [] \<Rightarrow> PyNone | v # _ \<Rightarrow> v) \<noteq> None
         then [CallClient (DeleteGRRTempFiles p) ''TemporaryImageRemoved''] else []))"
proof -
  have "calls_of (effects (CollectImage st r)) =
       [CallFlow (MultiGetFile [p]) [(''image_path'', p)] ''DeleteTemporaryImage'']"
    by (simp add: CollectImage_path [OF assms] calls_of_append calls_of_forward_if)
  moreover have "calls_of (effects (DeleteTemporaryImage client_id st'
          (envelope (CallFlow (MultiGetFile [p]) [(''image_path'', p)] ''DeleteTemporaryImage'')
             (Reply ok stat vs)))) =
        (if ok \<and> getattr_aff4path (case vs of [] \<Rightarrow> PyNone | v # _ \<Rightarrow> v) \<noteq> None
         then [CallClient (DeleteGRRTempFiles p) ''TemporaryImageRemoved''] else [])"
    for ok stat vs st'
    by (simp add: DeleteTemporaryImage_calls envelope_def First_def)
  ultimately show ?thesis by blast
qed

theorem cleanup_carries_dump_path_witness:
  "calls_of (effects (DeleteTemporaryImage ''C.1'' Map.empty
          (envelope (CallFlow (MultiGetFile [''/tmp/img'']) [(''image_path'', ''/tmp/img'')] ''DeleteTemporaryImage'')
             (Reply True [] [StatEntry ''aff4:/C.1/fs/os/tmp/img''])))) =
     [CallClient (DeleteGRRTempFiles ''/tmp/img'') ''TemporaryImageRemoved''] \<and>
   calls_of (effects (DeleteTemporaryImage ''C.1'' Map.empty
          (envelope (CallFlow (MultiGetFile [''/tmp/img'']) [(''image_path'', ''/tmp/img'')] ''DeleteTemporaryImage'')
             (Reply False ''no such file'' [])))) = []"
  using cleanup_carries_dump_path [of "\<lparr>success = True, status = [], items = [DumpFlashImageResponse ''/tmp/img'' []],
                  request_data = [], request_payload = None\<rparr>" "''/tmp/img''" Map.empty "''C.1''"]
  by (simp add: First_def)

section \<open>The ACPI flow\<close>


text \<open>
  Claim C9. With an empty \<open>table_signature_list\<close>, \<open>Validate\<close> raises the ValueError, and
  starting the flow gives that error and no instance: no state, no trace, no call.
\<close>

theorem empty_signature_list_rejected:
  "table_signature_list args = [] \<Longrightarrow>
     Validate args = Some (ValueError ''No ACPI table to dump.'') \<and>
     StartFlow_DumpACPITable args client_id = Inl (ValueError ''No ACPI table to dump.'')"
  by (simp add: Validate_def StartFlow_DumpACPITable_def)

theorem empty_signature_list_rejected_witness:
  "StartFlow_DumpACPITable
     \<lparr>acpi_component_version = ''1'', logging = False, table_signature_list = []\<rparr> ''C.1'' =
     Inl (ValueError ''No ACPI table to dump.'')"
  using empty_signature_list_rejected [of "\<lparr>acpi_component_version = ''1'', logging = False, table_signature_list = []\<rparr>" "''C.1''"]
  by simp

section \<open>The debug information of the flash flow\<close>

text \<open>
  Claim C10. \<open>CollectDebugInfo\<close> ignores its responses. \<open>DumpImage\<close> stores
  \<^verbatim>\<open>responses.First()\<close>, which is \<^verbatim>\<open>None\<close> when nothing came back, under
  \<open>hardware_info\<close> and dispatches the dump call; the success flag changes nothing, no
  error is raised, and the instance keeps its status.
\<close>

theorem debug_info_success_not_inspected:
  "CollectDebugInfo st r =
     returns st [Dispatch (CallFlow (ArtifactCollectorFlow [''LinuxHardwareInfo''] True) []
                             ''DumpImage'')] \<and>
   DumpImage args st r =
     returns (st(''hardware_info'' \<mapsto> First r))
       [Dispatch (CallClient
          (Stub_DumpFlashImage (log_level args) (chunk_size args) (notify_syslog args))
          ''CollectImage'')] \<and>
   DumpImage args st (r\<lparr>success := b\<rparr>) = DumpImage args st r \<and>
   CollectDebugInfo st (r\<lparr>success := b\<rparr>) = CollectDebugInfo st r \<and>
   raised (DumpImage args st r) = None \<and>
   state_after (DumpImage args st (r\<lparr>items := []\<rparr>)) ''hardware_info'' = Some PyNone \<and>
   run_status (run_handler (flash_handlers args client_id) ''DumpImage'' r inst) = run_status inst \<and>
   run_status (run_handler (flash_handlers args client_id) ''CollectDebugInfo'' r inst) =
     run_status inst"
  by (simp add: CollectDebugInfo_def DumpImage_def First_def run_handler_def
      flash_handlers_simps Let_def)

section \<open>Every run of the flash flow follows one script\<close>

lemma milestones_simps [simp]:
  "milestones [] = []"
  "milestones (e # es) = (if is_milestone e then e # milestones es else milestones es)"
  "milestones (xs @ ys) = milestones xs @ milestones ys"
  by (simp_all add: milestones_def)

lemma milestones_map_Log: "milestones (map Log ls) = []"
  by (induction ls) simp_all

lemma milestones_forward_if: "milestones (forward_logs_if_present vs) = []"
  by (induction vs) (simp_all add: milestones_map_Log split: option.split)

lemma early_state_simps:
  "early_state ''CollectDebugInfo''" "early_state ''DumpImage''" "early_state ''CollectImage''"
  "early_state ''DeleteTemporaryImage''" "early_state ''End''"
  by (simp_all add: early_state_def)

lemma flash_inv_early:
  "run_status inst = Running \<Longrightarrow> outstanding inst = [c] \<Longrightarrow> early_state (next_state c) \<Longrightarrow>
     milestones (trace inst) = [] \<Longrightarrow> flash_inv client_id inst"
  unfolding flash_inv_def by blast

lemma flash_inv_late:
  "run_status inst = Running \<Longrightarrow>
     outstanding inst = [CallClient (DeleteGRRTempFiles p) ''TemporaryImageRemoved''] \<Longrightarrow>
     milestones (trace inst) = flash_script client_id v target p \<Longrightarrow> flash_inv client_id inst"
  unfolding flash_inv_def by blast

lemma flash_inv_stopped:
  "run_status inst \<noteq> Running \<Longrightarrow>
     prefix (milestones (trace inst)) (flash_script client_id v target p) \<Longrightarrow>
     flash_inv client_id inst"
  unfolding flash_inv_def by blast

text \<open>What a reply does to an instance that waits for one call only.\<close>

lemma resume_only:
  "run_status inst = Running \<Longrightarrow> outstanding inst = [c] \<Longrightarrow>
     resume H inst c rep =
       finish H (run_handler H (next_state c) (envelope c rep) (inst\<lparr>outstanding := []\<rparr>))"
  by (simp add: resume_def)

lemma resume_other:
  "outstanding inst = [c] \<Longrightarrow> c' \<noteq> c \<Longrightarrow> resume H inst c' rep = inst"
  by (simp add: resume_def)

lemma resume_raised:
  assumes "run_status inst = Running" "outstanding inst = [c]" "H (next_state c) = Some h"
    and "raised (h (wstate inst) (envelope c rep)) = Some e"
  shows "run_status (resume H inst c rep) = Failed e"
    and "trace (resume H inst c rep) = trace inst @ effects (h (wstate inst) (envelope c rep))"
  using assms by (simp_all add: resume_only run_handler_def finish_def Let_def)

lemma resume_called:
  assumes "run_status inst = Running" "outstanding inst = [c]" "H (next_state c) = Some h"
    and "raised (h (wstate inst) (envelope c rep)) = None"
    and "calls_of (effects (h (wstate inst) (envelope c rep))) = c' # cs"
  shows "run_status (resume H inst c rep) = Running"
    and "outstanding (resume H inst c rep) = c' # cs"
    and "trace (resume H inst c rep) = trace inst @ effects (h (wstate inst) (envelope c rep))"
  using assms by (simp_all add: resume_only run_handler_def finish_def Let_def)

lemma resume_at_End:
  assumes "run_status inst = Running" "outstanding inst = [c]" "next_state c = ''End''"
    and "H ''End'' = Some h"
    and "raised (h (wstate inst) (envelope c rep)) = None"
    and "calls_of (effects (h (wstate inst) (envelope c rep))) = []"
  shows "run_status (resume H inst c rep) = Completed"
    and "trace (resume H inst c rep) = trace inst @ effects (h (wstate inst) (envelope c rep))"
  using assms by (simp_all add: resume_only run_handler_def finish_def Let_def)

lemma resume_then_End:
  assumes "run_status inst = Running" "outstanding inst = [c]" "H (next_state c) = Some h"
    and "next_state c \<noteq> ''End''"
    and "raised (h (wstate inst) (envelope c rep)) = None"
    and "calls_of (effects (h (wstate inst) (envelope c rep))) = []"
    and "H ''End'' = Some e"
    and "raised (e (state_after (h (wstate inst) (envelope c rep))) no_responses) = None"
    and "calls_of (effects (e (state_after (h (wstate inst) (envelope c rep))) no_responses)) = []"
  shows "run_status (resume H inst c rep) = Completed"
    and "trace (resume H inst c rep) =
           trace inst @ effects (h (wstate inst) (envelope c rep)) @
           effects (e (state_after (h (wstate inst) (envelope c rep))) no_responses)"
  using assms by (simp_all add: resume_only run_handler_def finish_def Let_def)

lemma DumpFlashImage_End_quiet:
  "raised (DumpFlashImage_End st) = None"
  "calls_of (effects (DumpFlashImage_End st)) = []"
  "milestones (effects (DumpFlashImage_End st)) = []"
  by (simp_all add: DumpFlashImage_End_def)


lemma flash_inv_enter: "flash_inv client_id (StartFlow_DumpFlashImage args client_id)"
proof (rule flash_inv_early)
  let ?i = "StartFlow_DumpFlashImage args client_id"
  let ?c = "LoadComponentOnClient ''grr-chipsec-component'' (component_version args)
              ''CollectDebugInfo''"
  have i: "?i = \<lparr>wstate = Map.empty, trace = [Dispatch ?c], outstanding = [?c],
                  current_state = ''Start'', run_status = Running\<rparr>"
    by (simp add: StartFlow_DumpFlashImage_def enter_def finish_def run_handler_def
        flash_handlers_simps DumpFlashImage_Start_def Let_def)
  show "run_status ?i = Running" "outstanding ?i = [?c]" "milestones (trace ?i) = []"
    by (simp_all add: i)
  show "early_state (next_state ?c)" by (simp add: early_state_simps)
qed

lemma step_CollectDebugInfo:
  assumes "run_status inst = Running" "outstanding inst = [c]"
    "next_state c = ''CollectDebugInfo''" "milestones (trace inst) = []"
  shows "flash_inv client_id (resume (flash_handlers args client_id) inst c rep)"
proof -
  let ?H = "flash_handlers args client_id"
  let ?c' = "CallFlow (ArtifactCollectorFlow [''LinuxHardwareInfo''] True) [] ''DumpImage''"
  have h: "?H (next_state c) = Some CollectDebugInfo"
    by (simp only: assms(3) flash_handlers_simps)
  have out: "raised (CollectDebugInfo (wstate inst) (envelope c rep)) = None"
    "calls_of (effects (CollectDebugInfo (wstate inst) (envelope c rep))) = [?c']"
    "milestones (effects (CollectDebugInfo (wstate inst) (envelope c rep))) = []"
    by (simp_all add: CollectDebugInfo_def)
  note r = resume_called [where H = ?H and h = CollectDebugInfo, OF assms(1,2) h out(1,2)]
  show ?thesis
  proof (rule flash_inv_early)
    show "run_status (resume ?H inst c rep) = Running" by (rule r(1))
    show "outstanding (resume ?H inst c rep) = [?c']" by (rule r(2))
    show "early_state (next_state ?c')" by (simp add: early_state_simps)
    show "milestones (trace (resume ?H inst c rep)) = []"
      by (simp add: r(3) assms(4) out(3))
  qed
qed

lemma step_DumpImage:
  assumes "run_status inst = Running" "outstanding inst = [c]"
    "next_state c = ''DumpImage''" "milestones (trace inst) = []"
  shows "flash_inv client_id (resume (flash_handlers args client_id) inst c rep)"
proof -
  let ?H = "flash_handlers args client_id"
  let ?c' = "CallClient
          (Stub_DumpFlashImage (log_level args) (chunk_size args) (notify_syslog args))
          ''CollectImage''"
  have h: "?H (next_state c) = Some (DumpImage args)"
    by (simp only: assms(3) flash_handlers_simps)
  have out: "raised (DumpImage args (wstate inst) (envelope c rep)) = None"
    "calls_of (effects (DumpImage args (wstate inst) (envelope c rep))) = [?c']"
    "milestones (effects (DumpImage args (wstate inst) (envelope c rep))) = []"
    by (simp_all add: DumpImage_def)
  note r = resume_called [where H = ?H and h = "DumpImage args", OF assms(1,2) h out(1,2)]
  show ?thesis
  proof (rule flash_inv_early)
    show "run_status (resume ?H inst c rep) = Running" by (rule r(1))
    show "outstanding (resume ?H inst c rep) = [?c']" by (rule r(2))
    show "early_state (next_state ?c')" by (simp add: early_state_simps)
    show "milestones (trace (resume ?H inst c rep)) = []"
      by (simp add: r(3) assms(4) out(3))
  qed
qed

lemma step_End:
  assumes "run_status inst = Running" "outstanding inst = [c]"
    "next_state c = ''End''" "milestones (trace inst) = []"
  shows "flash_inv client_id (resume (flash_handlers args client_id) inst c rep)"
proof -
  let ?H = "flash_handlers args client_id"
  note r = resume_at_End [where H = ?H and h = "\<lambda>st r. DumpFlashImage_End st",
      OF assms(1,2,3) flash_handlers_simps(7) DumpFlashImage_End_quiet(1,2)]
  show ?thesis
  proof (rule flash_inv_stopped)
    show "run_status (resume ?H inst c rep) \<noteq> Running" by (simp add: r(1))
    show "prefix (milestones (trace (resume ?H inst c rep)))
            (flash_script client_id PyNone [] [])"
      by (simp add: r(2) assms(4) DumpFlashImage_End_quiet(3))
  qed
qed

lemma CollectImage_cases:
  "(\<exists>e. raised (CollectImage st r) = Some e) \<or>
   (raised (CollectImage st r) = None \<and>
    (\<exists>c'. calls_of (effects (CollectImage st r)) = [c'] \<and> early_state (next_state c')))"
  by (simp add: CollectImage_def Let_def calls_of_append calls_of_forward_if
      early_state_simps split: option.split)

lemma step_CollectImage:
  assumes "run_status inst = Running" "outstanding inst = [c]"
    "next_state c = ''CollectImage''" "milestones (trace inst) = []"
  shows "flash_inv client_id (resume (flash_handlers args client_id) inst c rep)"
proof -
  let ?H = "flash_handlers args client_id"
  let ?r = "envelope c rep"
  let ?out = "CollectImage (wstate inst) ?r"
  have h: "?H (next_state c) = Some CollectImage"
    by (simp only: assms(3) flash_handlers_simps)
  have quiet: "milestones (effects ?out) = []"
    by (simp add: CollectImage_def Let_def milestones_forward_if split: option.split)
  from CollectImage_cases [of "wstate inst" ?r] show ?thesis
  proof (elim disjE exE conjE)
    fix e assume stop: "raised ?out = Some e"
    note r = resume_raised [where H = ?H and h = CollectImage, OF assms(1,2) h stop]
    show ?thesis
    proof (rule flash_inv_stopped)
      show "run_status (resume ?H inst c rep) \<noteq> Running" by (simp add: r(1))
      show "prefix (milestones (trace (resume ?H inst c rep)))
              (flash_script client_id PyNone [] [])"
        by (simp add: r(2) assms(4) quiet)
    qed
  next
    fix c' assume go: "raised ?out = None" "calls_of (effects ?out) = [c']"
      "early_state (next_state c')"
    note r = resume_called [where H = ?H and h = CollectImage, OF assms(1,2) h go(1,2)]
    show ?thesis
    proof (rule flash_inv_early)
      show "run_status (resume ?H inst c rep) = Running" by (rule r(1))
      show "outstanding (resume ?H inst c rep) = [c']" by (rule r(2))
      show "early_state (next_state c')" by (rule go(3))
      show "milestones (trace (resume ?H inst c rep)) = []"
        by (simp add: r(3) assms(4) quiet)
    qed
  qed
qed


lemma prefix_script:
  "prefix [] (flash_script client_id v target p)"
  "prefix [SendReply v] (flash_script client_id v target p)"
  "prefix [SendReply v, Set_SYMLINK_TARGET (Add client_id ''spiflash'') target]
     (flash_script client_id v target p)"
  "prefix (flash_script client_id v target p) (flash_script client_id v target p)"
  by (simp_all add: flash_script_def)

lemma DeleteTemporaryImage_no_aff4path:
  "success r \<Longrightarrow> getattr_aff4path (First r) = None \<Longrightarrow>
     DeleteTemporaryImage client_id st r =
       raises st [SendReply (First r), FACTORY_Create (Add client_id ''spiflash'') AFF4Symlink,
                  Close (Add client_id ''spiflash'')]
         (AttributeError ''aff4path'')"
  by (simp add: DeleteTemporaryImage_def Let_def)

lemma DeleteTemporaryImage_no_key:
  "success r \<Longrightarrow> getattr_aff4path (First r) = Some target \<Longrightarrow>
   map_of (request_data r) ''image_path'' = None \<Longrightarrow>
     DeleteTemporaryImage client_id st r =
       raises st [SendReply (First r), FACTORY_Create (Add client_id ''spiflash'') AFF4Symlink,
                  Set_SYMLINK_TARGET (Add client_id ''spiflash'') target,
                  Close (Add client_id ''spiflash'')]
         (KeyError ''image_path'')"
  by (simp add: DeleteTemporaryImage_def Let_def)

lemma DeleteTemporaryImage_success:
  "success r \<Longrightarrow> getattr_aff4path (First r) = Some target \<Longrightarrow>
   map_of (request_data r) ''image_path'' = Some p \<Longrightarrow>
     DeleteTemporaryImage client_id st r =
       returns st [SendReply (First r), FACTORY_Create (Add client_id ''spiflash'') AFF4Symlink,
                   Set_SYMLINK_TARGET (Add client_id ''spiflash'') target,
                   Close (Add client_id ''spiflash''),
                   Dispatch (CallClient (DeleteGRRTempFiles p) ''TemporaryImageRemoved'')]"
  by (simp add: DeleteTemporaryImage_def Let_def)

lemma DeleteTemporaryImage_cases:
  "(\<exists>e v target p. raised (DeleteTemporaryImage client_id st r) = Some e \<and>
      prefix (milestones (effects (DeleteTemporaryImage client_id st r)))
        (flash_script client_id v target p)) \<or>
   (\<exists>v target p. raised (DeleteTemporaryImage client_id st r) = None \<and>
      calls_of (effects (DeleteTemporaryImage client_id st r)) =
        [CallClient (DeleteGRRTempFiles p) ''TemporaryImageRemoved''] \<and>
      milestones (effects (DeleteTemporaryImage client_id st r)) =
        flash_script client_id v target p)"
proof (cases "success r")
  case False
  have "raised (DeleteTemporaryImage client_id st r) =
          Some (FlowError (''Unable to collect the flash image: '' @ status r))"
    "milestones (effects (DeleteTemporaryImage client_id st r)) = []"
    by (simp_all only: DeleteTemporaryImage_failure [OF False] raises_sel milestones_simps)
  with prefix_script(1) show ?thesis by metis
next
  case True
  show ?thesis
  proof (cases "getattr_aff4path (First r)")
    case None
    have "raised (DeleteTemporaryImage client_id st r) = Some (AttributeError ''aff4path'')"
      "milestones (effects (DeleteTemporaryImage client_id st r)) = [SendReply (First r)]"
      by (simp_all add: DeleteTemporaryImage_no_aff4path [OF True None])
    with prefix_script(2) show ?thesis by metis
  next
    case (Some target)
    show ?thesis
    proof (cases "map_of (request_data r) ''image_path''")
      case None
      have "raised (DeleteTemporaryImage client_id st r) = Some (KeyError ''image_path'')"
        "milestones (effects (DeleteTemporaryImage client_id st r)) =
           [SendReply (First r), Set_SYMLINK_TARGET (Add client_id ''spiflash'') target]"
        by (simp_all add: DeleteTemporaryImage_no_key [OF True Some None])
      with prefix_script(3) show ?thesis by metis
    next
      case (Some p)
      have "raised (DeleteTemporaryImage client_id st r) = None"
        "calls_of (effects (DeleteTemporaryImage client_id st r)) =
           [CallClient (DeleteGRRTempFiles p) ''TemporaryImageRemoved'']"
        "milestones (effects (DeleteTemporaryImage client_id st r)) =
           flash_script client_id (First r) target p"
        by (simp_all add: DeleteTemporaryImage_success
              [OF True \<open>getattr_aff4path (First r) = Some target\<close> Some] flash_script_def)
      then show ?thesis by metis
    qed
  qed
qed

lemma step_DeleteTemporaryImage:
  assumes "run_status inst = Running" "outstanding inst = [c]"
    "next_state c = ''DeleteTemporaryImage''" "milestones (trace inst) = []"
  shows "flash_inv client_id (resume (flash_handlers args client_id) inst c rep)"
proof -
  let ?H = "flash_handlers args client_id"
  let ?r = "envelope c rep"
  let ?out = "DeleteTemporaryImage client_id (wstate inst) ?r"
  have h: "?H (next_state c) = Some (DeleteTemporaryImage client_id)"
    by (simp only: assms(3) flash_handlers_simps)
  from DeleteTemporaryImage_cases [of client_id "wstate inst" ?r] show ?thesis
  proof (elim disjE exE conjE)
    fix e v target p
    assume stop: "raised ?out = Some e"
      and pre: "prefix (milestones (effects ?out)) (flash_script client_id v target p)"
    note r = resume_raised [where H = ?H and h = "DeleteTemporaryImage client_id",
        OF assms(1,2) h stop]
    show ?thesis
    proof (rule flash_inv_stopped)
      show "run_status (resume ?H inst c rep) \<noteq> Running" by (simp add: r(1))
      show "prefix (milestones (trace (resume ?H inst c rep)))
              (flash_script client_id v target p)"
        using pre by (simp add: r(2) assms(4))
    qed
  next
    fix v target p
    assume go: "raised ?out = None"
      "calls_of (effects ?out) = [CallClient (DeleteGRRTempFiles p) ''TemporaryImageRemoved'']"
      "milestones (effects ?out) = flash_script client_id v target p"
    note r = resume_called [where H = ?H and h = "DeleteTemporaryImage client_id",
        OF assms(1,2) h go(1,2)]
    show ?thesis
    proof (rule flash_inv_late)
      show "run_status (resume ?H inst c rep) = Running" by (rule r(1))
      show "outstanding (resume ?H inst c rep) =
              [CallClient (DeleteGRRTempFiles p) ''TemporaryImageRemoved'']" by (rule r(2))
      show "milestones (trace (resume ?H inst c rep)) = flash_script client_id v target p"
        by (simp add: r(3) assms(4) go(3))
    qed
  qed
qed

lemma step_TemporaryImageRemoved:
  assumes "run_status inst = Running"
    "outstanding inst = [CallClient (DeleteGRRTempFiles p) ''TemporaryImageRemoved'']"
    "milestones (trace inst) = flash_script client_id v target p"
  shows "flash_inv client_id
     (resume (flash_handlers args client_id) inst
        (CallClient (DeleteGRRTempFiles p) ''TemporaryImageRemoved'') rep)"
proof -
  let ?H = "flash_handlers args client_id"
  let ?c = "CallClient (DeleteGRRTempFiles p) ''TemporaryImageRemoved''"
  let ?r = "envelope ?c rep"
  let ?out = "TemporaryImageRemoved (wstate inst) ?r"
  have h: "?H (next_state ?c) = Some TemporaryImageRemoved"
    by (simp add: flash_handlers_simps)
  have quiet: "milestones (effects ?out) = []"
    by (simp add: TemporaryImageRemoved_def)
  have not_end: "next_state ?c \<noteq> ''End''" by simp
  show ?thesis
  proof (cases "success ?r")
    case False
    have stop: "raised ?out =
        Some (FlowError (''Unable to delete the temporary flash image: '' @ status ?r))"
      by (simp only: TemporaryImageRemoved_failure [OF False] raises_sel)
    note r = resume_raised [where H = ?H and h = TemporaryImageRemoved, OF assms(1,2) h stop]
    show ?thesis
    proof (rule flash_inv_stopped)
      show "run_status (resume ?H inst ?c rep) \<noteq> Running" by (simp add: r(1))
      show "prefix (milestones (trace (resume ?H inst ?c rep)))
              (flash_script client_id v target p)"
        by (simp add: r(2) assms(3) quiet)
    qed
  next
    case True
    then have go: "raised ?out = None" "calls_of (effects ?out) = []"
      by (simp_all add: TemporaryImageRemoved_def)
    note r = resume_then_End [where H = ?H and h = TemporaryImageRemoved
        and e = "\<lambda>st r. DumpFlashImage_End st",
        OF assms(1,2) h not_end go flash_handlers_simps(7) DumpFlashImage_End_quiet(1,2)]
    show ?thesis
    proof (rule flash_inv_stopped)
      show "run_status (resume ?H inst ?c rep) \<noteq> Running" by (simp add: r(1))
      show "prefix (milestones (trace (resume ?H inst ?c rep)))
              (flash_script client_id v target p)"
        by (simp add: r(2) assms(3) quiet DumpFlashImage_End_quiet(3))
    qed
  qed
qed

lemma flash_inv_resume:
  assumes "flash_inv client_id inst"
  shows "flash_inv client_id (resume (flash_handlers args client_id) inst c rep)"
proof (cases "run_status inst = Running \<and> c \<in> set (outstanding inst)")
  case False
  then have "resume (flash_handlers args client_id) inst c rep = inst"
    by (auto simp add: resume_def)
  with assms show ?thesis by simp
next
  case True
  then have running: "run_status inst = Running" and c: "c \<in> set (outstanding inst)"
    by simp_all
  from assms [unfolded flash_inv_def] show ?thesis
  proof (elim disjE exE conjE)
    fix c' assume clean: "milestones (trace inst) = []" and out: "outstanding inst = [c']"
      and early: "early_state (next_state c')"
    from c out have cc: "c' = c" by simp
    from early [unfolded early_state_def cc] show ?thesis
    proof (elim disjE)
      assume "next_state c = ''CollectDebugInfo''"
      then show ?thesis
        by (rule step_CollectDebugInfo [OF running out [unfolded cc] _ clean])
    next
      assume "next_state c = ''DumpImage''"
      then show ?thesis by (rule step_DumpImage [OF running out [unfolded cc] _ clean])
    next
      assume "next_state c = ''CollectImage''"
      then show ?thesis by (rule step_CollectImage [OF running out [unfolded cc] _ clean])
    next
      assume "next_state c = ''DeleteTemporaryImage''"
      then show ?thesis
        by (rule step_DeleteTemporaryImage [OF running out [unfolded cc] _ clean])
    next
      assume "next_state c = ''End''"
      then show ?thesis by (rule step_End [OF running out [unfolded cc] _ clean])
    qed
  next
    fix v target p
    assume out: "outstanding inst = [CallClient (DeleteGRRTempFiles p) ''TemporaryImageRemoved'']"
      and script: "milestones (trace inst) = flash_script client_id v target p"
    from c out have cc: "c = CallClient (DeleteGRRTempFiles p) ''TemporaryImageRemoved''"
      by simp
    show ?thesis
      unfolding cc by (rule step_TemporaryImageRemoved [OF running out script])
  next
    assume "run_status inst \<noteq> Running"
    with running show ?thesis by simp
  qed
qed

lemma flash_inv_run:
  "flash_inv client_id inst \<Longrightarrow>
     flash_inv client_id (run (flash_handlers args client_id) inst deliveries)"
proof (induction deliveries arbitrary: inst)
  case Nil
  then show ?case by simp
next
  case (Cons d deliveries)
  obtain c rep where d: "d = (c, rep)" by (cases d)
  show ?case
    unfolding d run.simps by (rule Cons.IH [OF flash_inv_resume [OF Cons.prems]])
qed

lemma flash_inv_prefix:
  assumes "flash_inv client_id inst"
  shows "\<exists>v target p. prefix (milestones (trace inst)) (flash_script client_id v target p)"
  using assms [unfolded flash_inv_def]
proof (elim disjE exE conjE)
  assume "milestones (trace inst) = []"
  then have "prefix (milestones (trace inst)) (flash_script client_id PyNone [] [])" by simp
  then show ?thesis by blast
next
  fix v target p assume "milestones (trace inst) = flash_script client_id v target p"
  then have "prefix (milestones (trace inst)) (flash_script client_id v target p)" by simp
  then show ?thesis by blast
next
  fix v target p
  assume "prefix (milestones (trace inst)) (flash_script client_id v target p)"
  then show ?thesis by blast
qed

lemma flash_run_script:
  "\<exists>v target p.
     prefix (milestones (trace (run (flash_handlers args client_id)
                                 (StartFlow_DumpFlashImage args client_id) deliveries)))
       (flash_script client_id v target p)"
  by (rule flash_inv_prefix [OF flash_inv_run [OF flash_inv_enter]])

lemma pointer_updates_milestones: "pointer_updates (milestones es) = pointer_updates es"
proof (induction es)
  case Nil
  show ?case by simp
next
  case (Cons e es)
  then show ?case by (cases e rule: is_milestone.cases) (simp_all add: pointer_updates_def)
qed

lemma pointer_updates_prefix:
  assumes "prefix ms (flash_script client_id v target p)"
  shows "length (pointer_updates ms) \<le> 1"
proof -
  from assms obtain zs where "flash_script client_id v target p = ms @ zs"
    by (auto simp add: prefix_def)
  then have "pointer_updates (flash_script client_id v target p) =
      pointer_updates ms @ pointer_updates zs"
    by (simp add: pointer_updates_def)
  moreover have "length (pointer_updates (flash_script client_id v target p)) = 1"
    by (simp add: pointer_updates_def flash_script_def)
  ultimately show ?thesis by simp
qed

text \<open>
  Claim C5, as stated, has the pointer updated exactly once in every run. A run whose dump
  fails is aborted by \<open>CollectImage\<close> and never updates the pointer.
\<close>

theorem failed_dump_run_has_no_pointer_update:
  "run_status
     (run (flash_handlers \<lparr>component_version = ''1'', log_level = 0, chunk_size = 0,
              notify_syslog = False\<rparr> ''C.1'')
        (StartFlow_DumpFlashImage \<lparr>component_version = ''1'', log_level = 0, chunk_size = 0,
              notify_syslog = False\<rparr> ''C.1'')
        [(LoadComponentOnClient ''grr-chipsec-component'' ''1'' ''CollectDebugInfo'',
          Reply True [] []),
         (CallFlow (ArtifactCollectorFlow [''LinuxHardwareInfo''] True) [] ''DumpImage'',
          Reply True [] []),
         (CallClient (Stub_DumpFlashImage 0 0 False) ''CollectImage'',
          Reply False ''device busy'' [])]) =
     Failed (FlowError ''Failed to dump the flash image: device busy'') \<and>
   pointer_updates (trace
     (run (flash_handlers \<lparr>component_version = ''1'', log_level = 0, chunk_size = 0,
              notify_syslog = False\<rparr> ''C.1'')
        (StartFlow_DumpFlashImage \<lparr>component_version = ''1'', log_level = 0, chunk_size = 0,
              notify_syslog = False\<rparr> ''C.1'')
        [(LoadComponentOnClient ''grr-chipsec-component'' ''1'' ''CollectDebugInfo'',
          Reply True [] []),
         (CallFlow (ArtifactCollectorFlow [''LinuxHardwareInfo''] True) [] ''DumpImage'',
          Reply True [] []),
         (CallClient (Stub_DumpFlashImage 0 0 False) ''CollectImage'',
          Reply False ''device busy'' [])])) = []"
  by (simp add: StartFlow_DumpFlashImage_def enter_def finish_def run_handler_def resume_def
     flash_handlers_def envelope_def no_responses_def
     DumpFlashImage_Start_def CollectDebugInfo_def DumpImage_def CollectImage_def
     First_def pointer_updates_def)

text \<open>
  Claim C5, amended. In every run of the flash flow, whatever replies arrive and in
  whatever order, the replies sent, the pointer updates and the cleanup calls form a
  prefix of: the reply with the transferred value, one update of the \<open>spiflash\<close> pointer,
  one cleanup call. So the pointer is updated at most once, after the value is sent and
  before the cleanup call. In \<open>DeleteTemporaryImage\<close> the update happens only for a
  successful transfer reply whose first value has an \<open>aff4path\<close>; when the request data
  has the path, the handler does exactly: reply, create, update, close, cleanup call.
\<close>

theorem pointer_update_at_most_once_in_order:
  "(\<exists>v target p.
      prefix (milestones (trace (run (flash_handlers args client_id)
                                  (StartFlow_DumpFlashImage args client_id) deliveries)))
        [SendReply v, Set_SYMLINK_TARGET (Add client_id ''spiflash'') target,
         Dispatch (CallClient (DeleteGRRTempFiles p) ''TemporaryImageRemoved'')]) \<and>
   length (pointer_updates (trace (run (flash_handlers args client_id)
                                  (StartFlow_DumpFlashImage args client_id) deliveries))) \<le> 1 \<and>
   (if success r then
      (case getattr_aff4path (First r) of
         None \<Rightarrow> pointer_updates (effects (DeleteTemporaryImage client_id st r)) = []
       | Some target \<Rightarrow>
           (case map_of (request_data r) ''image_path'' of
              None \<Rightarrow>
                pointer_updates (effects (DeleteTemporaryImage client_id st r)) =
                  [Set_SYMLINK_TARGET (Add client_id ''spiflash'') target]
            | Some p \<Rightarrow>
                effects (DeleteTemporaryImage client_id st r) =
                  [SendReply (First r),
                   FACTORY_Create (Add client_id ''spiflash'') AFF4Symlink,
                   Set_SYMLINK_TARGET (Add client_id ''spiflash'') target,
                   Close (Add client_id ''spiflash''),
                   Dispatch (CallClient (DeleteGRRTempFiles p) ''TemporaryImageRemoved'')]))
    else effects (DeleteTemporaryImage client_id st r) = [])"
proof -
  let ?t = "trace (run (flash_handlers args client_id)
                     (StartFlow_DumpFlashImage args client_id) deliveries)"
  from flash_run_script [of args client_id deliveries]
  obtain v target p where pre: "prefix (milestones ?t) (flash_script client_id v target p)"
    by blast
  have a: "\<exists>v target p. prefix (milestones ?t)
        [SendReply v, Set_SYMLINK_TARGET (Add client_id ''spiflash'') target,
         Dispatch (CallClient (DeleteGRRTempFiles p) ''TemporaryImageRemoved'')]"
    using pre unfolding flash_script_def by blast
  have b: "length (pointer_updates ?t) \<le> 1"
    using pointer_updates_prefix [OF pre] by (simp only: pointer_updates_milestones)
  have c: "(if success r then
      (case getattr_aff4path (First r) of
         None \<Rightarrow> pointer_updates (effects (DeleteTemporaryImage client_id st r)) = []
       | Some target \<Rightarrow>
           (case map_of (request_data r) ''image_path'' of
              None \<Rightarrow>
                pointer_updates (effects (DeleteTemporaryImage client_id st r)) =
                  [Set_SYMLINK_TARGET (Add client_id ''spiflash'') target]
            | Some p \<Rightarrow>
                effects (DeleteTemporaryImage client_id st r) =
                  [SendReply (First r),
                   FACTORY_Create (Add client_id ''spiflash'') AFF4Symlink,
                   Set_SYMLINK_TARGET (Add client_id ''spiflash'') target,
                   Close (Add client_id ''spiflash''),
                   Dispatch (CallClient (DeleteGRRTempFiles p) ''TemporaryImageRemoved'')]))
    else effects (DeleteTemporaryImage client_id st r) = [])"
    by (simp add: DeleteTemporaryImage_def Let_def pointer_updates_def split: option.split)
  from a b c show ?thesis by (intro conjI)
qed

end
